theory Spec2Isabelle
  imports Complex_Main
begin

section \<open>The map connector: src/scripts/components/map/path.js\<close>

text \<open>
  The class \<open>Path\<close> draws one connector between two stages of the game map. The
  embedding follows the source method by method. An instance is a record of its fields;
  a method takes the instance and returns the instance it leaves behind.

  Modelling decisions, all of them visible in the definitions below:
  \<^item> A JavaScript number that takes part in geometry is a \<open>jsnum\<close>: a real, or
    one of the values a double has besides, the negative zero, the two infinities and
    \<open>NaN\<close>. The arithmetic on them follows IEEE 754 in everything but precision: a
    result that is a real is the exact one, so rounding, overflow and underflow are
    not represented.
  \<^item> The members of the state enumeration, and a number passed to \<open>setState\<close>,
    are integers.
  \<^item> A map size passed to \<open>resize\<close> is an object with both fields; the source reads
    them without a check.
  \<^item> An argument whose type the source tests with \<open>typeof\<close> is a \<open>jsval\<close>.
  \<^item> The parameter object is taken as it is after the defaults were merged, each of
    its numbers as \<open>parseFloat\<close> reads it: the path width, which the constructor
    parses, and the fields of the two boxes, which \<open>computePathTelemetry\<close> parses
    where it uses them (the string \<open>'-0'\<close> is read as the negative zero, a string
    that is no number as \<open>NaN\<close>). The two values read through \<open>globals.get\<close>
    (the enumeration \<open>states\<close> and the flag \<open>displayPaths\<close>) are fields of it.
\<close>

subsection \<open>Values\<close>

datatype jsval = JUndefined | JNull | JBool bool | JNum int | JStr string

datatype error = TypeError

subsection \<open>Numbers\<close>

text \<open>\<open>Num 0\<close> is the positive zero, \<open>NegZero\<close> the negative one.\<close>

datatype jsnum = Num real | NegZero | PosInf | NegInf | NaN

definition isNaN :: "jsnum \<Rightarrow> bool" where
  "isNaN x = (x = NaN)"

definition isInf :: "jsnum \<Rightarrow> bool" where
  "isInf x = (x = PosInf \<or> x = NegInf)"

text \<open>\<open>x === 0\<close>: true of both zeros.\<close>

definition isZero :: "jsnum \<Rightarrow> bool" where
  "isZero x = (x = Num 0 \<or> x = NegZero)"

text \<open>The real a finite number stands for.\<close>

fun num_val :: "jsnum \<Rightarrow> real" where
  "num_val (Num a) = a"
| "num_val NegZero = 0"
| "num_val PosInf = 0"
| "num_val NegInf = 0"
| "num_val NaN = 0"

text \<open>The sign bit.\<close>

fun negative :: "jsnum \<Rightarrow> bool" where
  "negative (Num a) = (a < 0)"
| "negative NegZero = True"
| "negative PosInf = False"
| "negative NegInf = True"
| "negative NaN = False"

definition signed_zero :: "bool \<Rightarrow> jsnum" where
  "signed_zero neg = (if neg then NegZero else Num 0)"

definition signed_inf :: "bool \<Rightarrow> jsnum" where
  "signed_inf neg = (if neg then NegInf else PosInf)"

text \<open>
  The result of an operation on finite numbers whose exact value is \<open>v\<close>; \<open>neg\<close> is
  the sign the operation gives a zero result.
\<close>

definition exact :: "real \<Rightarrow> bool \<Rightarrow> jsnum" where
  "exact v neg = (if v = 0 then signed_zero neg else Num v)"

text \<open>
  \<open>x + y\<close>. A zero sum is negative only when both operands are negative zeros.
\<close>

definition num_add :: "jsnum \<Rightarrow> jsnum \<Rightarrow> jsnum" where
  "num_add x y =
     (if isNaN x \<or> isNaN y then NaN
      else if isInf x then (if isInf y \<and> x \<noteq> y then NaN else x)
      else if isInf y then y
      else exact (num_val x + num_val y) (negative x \<and> negative y))"

fun num_neg :: "jsnum \<Rightarrow> jsnum" where
  "num_neg (Num a) = (if a = 0 then NegZero else Num (- a))"
| "num_neg NegZero = Num 0"
| "num_neg PosInf = NegInf"
| "num_neg NegInf = PosInf"
| "num_neg NaN = NaN"

text \<open>\<open>x - y\<close> is \<open>x + (-y)\<close>.\<close>

definition num_sub :: "jsnum \<Rightarrow> jsnum \<Rightarrow> jsnum" where
  "num_sub x y = num_add x (num_neg y)"

text \<open>\<open>x * y\<close>. The sign of the result is the exclusive or of the signs.\<close>

definition num_mul :: "jsnum \<Rightarrow> jsnum \<Rightarrow> jsnum" where
  "num_mul x y =
     (if isNaN x \<or> isNaN y then NaN
      else if isInf x \<or> isInf y
        then (if isZero x \<or> isZero y then NaN else signed_inf (negative x \<noteq> negative y))
      else exact (num_val x * num_val y) (negative x \<noteq> negative y))"

text \<open>\<open>x / y\<close>. A finite number other than zero divided by a zero is an infinity.\<close>

definition num_div :: "jsnum \<Rightarrow> jsnum \<Rightarrow> jsnum" where
  "num_div x y =
     (if isNaN x \<or> isNaN y then NaN
      else if isInf x then (if isInf y then NaN else signed_inf (negative x \<noteq> negative y))
      else if isInf y then signed_zero (negative x \<noteq> negative y)
      else if isZero y
        then (if isZero x then NaN else signed_inf (negative x \<noteq> negative y))
      else exact (num_val x / num_val y) (negative x \<noteq> negative y))"

text \<open>\<open>x < y\<close> and \<open>x >= y\<close>: false when an operand is \<open>NaN\<close>; the zeros are equal.\<close>

definition num_lt :: "jsnum \<Rightarrow> jsnum \<Rightarrow> bool" where
  "num_lt x y =
     (if isNaN x \<or> isNaN y then False
      else if x = PosInf then False
      else if y = NegInf then False
      else if x = NegInf then True
      else if y = PosInf then True
      else num_val x < num_val y)"

definition num_ge :: "jsnum \<Rightarrow> jsnum \<Rightarrow> bool" where
  "num_ge x y = (\<not> isNaN x \<and> \<not> isNaN y \<and> \<not> num_lt x y)"

text \<open>The functions of \<open>Math\<close> that the source calls.\<close>

definition Math_PI :: jsnum where
  "Math_PI = Num pi"

fun Math_sign :: "jsnum \<Rightarrow> jsnum" where
  "Math_sign (Num a) = (if 0 < a then Num 1 else if a < 0 then Num (- 1) else Num 0)"
| "Math_sign NegZero = NegZero"
| "Math_sign PosInf = Num 1"
| "Math_sign NegInf = Num (- 1)"
| "Math_sign NaN = NaN"

fun Math_abs :: "jsnum \<Rightarrow> jsnum" where
  "Math_abs (Num a) = Num \<bar>a\<bar>"
| "Math_abs NegZero = Num 0"
| "Math_abs PosInf = PosInf"
| "Math_abs NegInf = PosInf"
| "Math_abs NaN = NaN"

fun Math_sqrt :: "jsnum \<Rightarrow> jsnum" where
  "Math_sqrt (Num a) = (if a < 0 then NaN else Num (sqrt a))"
| "Math_sqrt NegZero = NegZero"
| "Math_sqrt PosInf = PosInf"
| "Math_sqrt NegInf = NaN"
| "Math_sqrt NaN = NaN"

fun Math_atan :: "jsnum \<Rightarrow> jsnum" where
  "Math_atan (Num a) = Num (arctan a)"
| "Math_atan NegZero = NegZero"
| "Math_atan PosInf = Num (pi / 2)"
| "Math_atan NegInf = Num (- (pi / 2))"
| "Math_atan NaN = NaN"

fun Math_cos :: "jsnum \<Rightarrow> jsnum" where
  "Math_cos (Num a) = Num (cos a)"
| "Math_cos NegZero = Num 1"
| "Math_cos PosInf = NaN"
| "Math_cos NegInf = NaN"
| "Math_cos NaN = NaN"

fun Math_sin :: "jsnum \<Rightarrow> jsnum" where
  "Math_sin (Num a) = Num (sin a)"
| "Math_sin NegZero = NegZero"
| "Math_sin PosInf = NaN"
| "Math_sin NegInf = NaN"
| "Math_sin NaN = NaN"

text \<open>
  \<open>Math.min\<close> and \<open>Math.max\<close> of two numbers: \<open>NaN\<close> if one of them is, and the
  negative zero counts as less than the positive one.
\<close>

definition Math_min :: "jsnum \<Rightarrow> jsnum \<Rightarrow> jsnum" where
  "Math_min x y =
     (if isNaN x \<or> isNaN y then NaN
      else if isZero x \<and> isZero y then (if x = NegZero \<or> y = NegZero then NegZero else Num 0)
      else if num_lt y x then y else x)"

definition Math_max :: "jsnum \<Rightarrow> jsnum \<Rightarrow> jsnum" where
  "Math_max x y =
     (if isNaN x \<or> isNaN y then NaN
      else if isZero x \<and> isZero y then (if x = Num 0 \<or> y = Num 0 then Num 0 else NegZero)
      else if num_lt x y then y else x)"

subsection \<open>Constants\<close>

definition MATH_TWO :: real where
  "MATH_TWO = 2"

definition MATH_HUNDRED :: real where
  "MATH_HUNDRED = 100"

definition MIN_WIDTH_PX :: real where
  "MIN_WIDTH_PX = 1"

definition MAX_FACTOR :: real where
  "MAX_FACTOR = 0.3"

subsection \<open>The instance\<close>

record box =
  box_x :: jsnum
  box_y :: jsnum
  box_width :: jsnum
  box_height :: jsnum

record mapSize =
  ms_width :: jsnum
  ms_height :: jsnum

record telemetry =
  tel_x :: jsnum
  tel_y :: jsnum
  tel_length :: jsnum
  tel_angle :: jsnum
  tel_width :: jsnum

text \<open>
  The argument of \<open>update\<close>: a field is \<open>Some\<close> when \<open>typeof\<close> gives \<open>'number'\<close>
  for it (which it does for \<open>NaN\<close> too).
\<close>

record upd =
  upd_x :: "jsnum option"
  upd_y :: "jsnum option"
  upd_length :: "jsnum option"
  upd_angle :: "jsnum option"
  upd_width :: "jsnum option"

text \<open>
  The inline style of the element: for each property the number last written into it
  (\<open>left\<close> and \<open>top\<close> in percent, \<open>width\<close> and \<open>borderTopWidth\<close> in px,
  \<open>transform\<close> the angle of the rotation), \<open>None\<close> while it was never written.
\<close>

record style =
  style_left :: "jsnum option"
  style_top :: "jsnum option"
  style_width :: "jsnum option"
  style_transform :: "jsnum option"
  style_borderTopWidth :: "jsnum option"

text \<open>
  \<open>this.params\<close>. \<open>p_visible\<close> and \<open>displayPaths\<close> are the truthiness of the
  values, which is all the source reads of them. \<open>states\<close> is the enumeration as
  \<open>Object.entries\<close> lists it.
\<close>

record params =
  p_state :: jsval
  p_visible :: bool
  pathWidth :: jsnum
  telemetryFrom :: box
  telemetryTo :: box
  fromId :: string
  toId :: string
  states :: "(string \<times> int) list"
  displayPaths :: bool

text \<open>
  The instance. \<open>classList\<close> is the class list of \<open>this.dom\<close>. \<open>frames\<close> counts
  the callbacks handed to \<open>requestAnimationFrame\<close> that have not run yet.
  \<open>hideCalls\<close> is not a field of the source: it counts the executions of \<open>hide()\<close>,
  so that "hide() was called" can be said of an instance. \<open>state\<close>,
  \<open>isReachableState\<close> and \<open>isVisibleState\<close> are \<open>None\<close> while the source has
  not assigned them (\<open>undefined\<close>).
\<close>

record path =
  params :: params
  classList :: "string list"
  style :: style
  frames :: nat
  hideCalls :: nat
  state :: "int option"
  isReachableState :: "bool option"
  isVisibleState :: "bool option"

text \<open>A call either returns or throws; the instance is there afterwards in both cases.\<close>

datatype outcome = Returned path | Threw error path

fun after :: "outcome \<Rightarrow> path" where
  "after (Returned p) = p"
| "after (Threw e p) = p"

subsection \<open>The class list of the element\<close>

definition classList_add :: "string \<Rightarrow> string list \<Rightarrow> string list" where
  "classList_add c cl = (if c \<in> set cl then cl else cl @ [c])"

definition classList_remove :: "string \<Rightarrow> string list \<Rightarrow> string list" where
  "classList_remove c cl = removeAll c cl"

subsection \<open>The enumeration\<close>

text \<open>\<open>states.open\<close>, \<open>states.cleared\<close>: a property read, \<open>None\<close> for \<open>undefined\<close>.\<close>

definition propertyOf :: "(string \<times> int) list \<Rightarrow> string \<Rightarrow> int option" where
  "propertyOf sts k = map_option snd (find (\<lambda>entry. fst entry = k) sts)"

text \<open>
  \<open>states[state]\<close> with a number: the number is turned into its property key, the
  decimal numeral (the exponent form JavaScript uses from \<open>1e21\<close> on is not modelled).
\<close>

definition digit_char :: "nat \<Rightarrow> char" where
  "digit_char d = ''0123456789'' ! d"

function decimal :: "nat \<Rightarrow> string" where
  "decimal n = (if n < 10 then [digit_char n] else decimal (n div 10) @ [digit_char (n mod 10)])"
  by pat_completeness auto
termination
  by (relation "measure id") auto

definition toPropertyKey :: "int \<Rightarrow> string" where
  "toPropertyKey n = (if n < 0 then CHR ''-'' # decimal (nat (- n)) else decimal (nat n))"

text \<open>The class that tags a state: \<open>`h5p-game-map-path-${key}`\<close>.\<close>

definition tag :: "string \<Rightarrow> string" where
  "tag key = ''h5p-game-map-path-'' @ key"

text \<open>
  The loop over \<open>Object.entries(states)\<close> in \<open>setState\<close>: the tag of an entry
  whose value is not the stored state is removed, the tag of the others is added.
\<close>

fun toggleTags :: "(string \<times> int) list \<Rightarrow> int option \<Rightarrow> string list \<Rightarrow> string list" where
  "toggleTags [] st cl = cl"
| "toggleTags ((key, val) # entries) st cl =
     toggleTags entries st
       (if Some val \<noteq> st then classList_remove (tag key) cl else classList_add (tag key) cl)"

subsection \<open>Accessors\<close>

definition getState :: "path \<Rightarrow> int option" where
  "getState this = state this"

definition getStageIds :: "path \<Rightarrow> string \<times> string" where
  "getStageIds this = (fromId (params this), toId (params this))"

definition connectsTo :: "string \<Rightarrow> path \<Rightarrow> bool" where
  "connectsTo stageId this = (fromId (params this) = stageId \<or> toId (params this) = stageId)"

definition isReachable :: "path \<Rightarrow> bool option" where
  "isReachable this = isReachableState this"

definition isVisible :: "path \<Rightarrow> bool option" where
  "isVisible this = isVisibleState this"

subsection \<open>Showing and hiding\<close>

definition Path_show :: "path \<Rightarrow> path" where
  "Path_show this =
     (if \<not> displayPaths (params this) then this
      else this\<lparr>classList := classList_remove ''display-none'' (classList this),
                frames := Suc (frames this),
                isVisibleState := Some True\<rparr>)"

definition Path_hide :: "path \<Rightarrow> path" where
  "Path_hide this =
     this\<lparr>classList := classList_add ''transparent''
                          (classList_add ''display-none'' (classList this)),
          hideCalls := Suc (hideCalls this),
          isVisibleState := Some False\<rparr>"

text \<open>The next animation frame runs the callbacks queued by \<open>show\<close>.\<close>

definition animationFrame :: "path \<Rightarrow> path" where
  "animationFrame this =
     (if frames this = 0 then this
      else this\<lparr>classList := classList_remove ''transparent'' (classList this), frames := 0\<rparr>)"

definition setReachable :: "jsval \<Rightarrow> path \<Rightarrow> path" where
  "setReachable st this =
     (case st of
        JBool b \<Rightarrow>
          (let this1 = this\<lparr>isReachableState := Some b\<rparr>
           in if isReachable this1 \<noteq> Some True then Path_hide this1 else this1)
      | _ \<Rightarrow> this)"

subsection \<open>Geometry\<close>

definition strokeWidth :: "jsnum \<Rightarrow> jsnum \<Rightarrow> jsnum" where
  "strokeWidth width pw =
     Math_min (Math_max (Num MIN_WIDTH_PX) (num_mul width pw)) (num_mul width (Num MAX_FACTOR))"

definition computePathTelemetry :: "mapSize \<Rightarrow> path \<Rightarrow> telemetry option" where
  "computePathTelemetry mapSize this =
     (if isZero (ms_height mapSize) \<or> isZero (ms_width mapSize) then None
      else
        let fromX = box_x (telemetryFrom (params this));
            fromY = box_y (telemetryFrom (params this));
            fromWidth = box_width (telemetryFrom (params this));
            fromHeight = box_height (telemetryFrom (params this));
            toX = box_x (telemetryTo (params this));
            toY = box_y (telemetryTo (params this));
            fromXPx = num_mul (num_div fromX (Num MATH_HUNDRED)) (ms_width mapSize);
            fromYPx = num_mul (num_div fromY (Num MATH_HUNDRED)) (ms_height mapSize);
            toXPx = num_mul (num_div toX (Num MATH_HUNDRED)) (ms_width mapSize);
            toYPx = num_mul (num_div toY (Num MATH_HUNDRED)) (ms_height mapSize);
            width = num_mul (num_div fromWidth (Num MATH_HUNDRED)) (ms_width mapSize);
            height = num_mul (num_div fromHeight (Num MATH_HUNDRED)) (ms_height mapSize);
            deltaXPx = num_sub fromXPx toXPx;
            deltaYPx = num_sub fromYPx toYPx;
            angleOffset = (if num_ge (Math_sign deltaXPx) (Num 0) then Math_PI else Num 0);
            angle = num_add (Math_atan (num_div deltaYPx deltaXPx)) angleOffset;
            offsetToBorder_x =
              num_div (num_mul (num_mul (num_div width (Num MATH_TWO)) (Math_cos angle))
                         (Num MATH_HUNDRED))
                (ms_width mapSize);
            offsetToBorder_y =
              num_div (num_mul (num_mul (num_div height (Num MATH_TWO)) (Math_sin angle))
                         (Num MATH_HUNDRED))
                (ms_height mapSize);
            sw = strokeWidth width (pathWidth (params this));
            offsetPathStroke =
              num_div (num_mul (num_div sw (Num MATH_TWO)) (Num MATH_HUNDRED)) (ms_height mapSize);
            x = num_add (num_add fromX (num_div fromWidth (Num MATH_TWO))) offsetToBorder_x;
            y = num_sub
                  (num_add (num_add fromY (num_div fromHeight (Num MATH_TWO))) offsetToBorder_y)
                  offsetPathStroke;
            len = num_sub
                    (Math_sqrt (num_add (num_mul (Math_abs deltaXPx) (Math_abs deltaXPx))
                                        (num_mul (Math_abs deltaYPx) (Math_abs deltaYPx))))
                    width
        in Some \<lparr>tel_x = x, tel_y = y, tel_length = len, tel_angle = angle, tel_width = sw\<rparr>)"

definition update :: "upd \<Rightarrow> path \<Rightarrow> path" where
  "update ps this =
     (let s0 = style this;
          s1 = (case upd_x ps of Some v \<Rightarrow> s0\<lparr>style_left := Some v\<rparr> | None \<Rightarrow> s0);
          s2 = (case upd_y ps of Some v \<Rightarrow> s1\<lparr>style_top := Some v\<rparr> | None \<Rightarrow> s1);
          s3 = (case upd_length ps of Some v \<Rightarrow> s2\<lparr>style_width := Some v\<rparr> | None \<Rightarrow> s2);
          s4 = (case upd_angle ps of Some v \<Rightarrow> s3\<lparr>style_transform := Some v\<rparr> | None \<Rightarrow> s3);
          s5 = (case upd_width ps of Some v \<Rightarrow> s4\<lparr>style_borderTopWidth := Some v\<rparr> | None \<Rightarrow> s4)
      in this\<lparr>style := s5\<rparr>)"

definition resize :: "mapSize \<Rightarrow> path \<Rightarrow> path" where
  "resize mapSize this =
     (case computePathTelemetry mapSize this of
        None \<Rightarrow> this
      | Some t \<Rightarrow>
          update \<lparr>upd_x = Some (tel_x t), upd_y = Some (tel_y t),
                  upd_length = Some (tel_length t), upd_angle = Some (tel_angle t),
                  upd_width = Some (tel_width t)\<rparr> this)"

subsection \<open>The state\<close>

text \<open>\<open>!this.state\<close>: true of \<open>undefined\<close> and of the number zero.\<close>

definition falsy :: "int option \<Rightarrow> bool" where
  "falsy st = (st = None \<or> st = Some 0)"

definition setState :: "jsval \<Rightarrow> bool \<Rightarrow> path \<Rightarrow> outcome" where
  "setState st0 force this =
     (let sts = states (params this);
          resolved =
            (case st0 of
               JStr s \<Rightarrow>
                 (case find (\<lambda>entry. fst entry = s) sts of
                    None \<Rightarrow> Inl TypeError
                  | Some entry \<Rightarrow> Inr (JNum (snd entry)))
             | _ \<Rightarrow> Inr st0)
      in case resolved of
           Inl e \<Rightarrow> Threw e this
         | Inr (JNum n) \<Rightarrow>
             (let newState =
                    (if force then propertyOf sts (toPropertyKey n)
                     else if Some n = propertyOf sts ''open'' then propertyOf sts ''open''
                     else if Some n = propertyOf sts ''cleared'' then propertyOf sts ''cleared''
                     else None)
              in if falsy (state this) \<or> state this \<noteq> newState
                 then Returned (this\<lparr>state := newState,
                                     classList := toggleTags sts newState (classList this)\<rparr>)
                 else Returned this)
         | Inr _ \<Rightarrow> Returned this)"

definition reset :: "bool \<Rightarrow> path \<Rightarrow> outcome" where
  "reset isInitial this =
     (let this1 = setReachable (JBool True) this;
          st = (if isInitial then p_state (params this1)
                else (case propertyOf (states (params this1)) ''open'' of
                        Some n \<Rightarrow> JNum n | None \<Rightarrow> JUndefined))
      in case setState st False this1 of
           Threw e this2 \<Rightarrow> Threw e this2
         | Returned this2 \<Rightarrow>
             Returned (if isInitial \<and> p_visible (params this2) then Path_show this2
                       else Path_hide this2))"

subsection \<open>Construction\<close>

text \<open>
  The constructor, given the merged parameters: a missing \<open>state\<close> becomes
  \<open>states.open\<close>, the element gets its class, and the connector is shown or hidden.
  No other field is assigned.
\<close>

definition Path :: "params \<Rightarrow> path" where
  "Path ps =
     (let ps1 = ps\<lparr>p_state :=
                    (if p_state ps = JUndefined \<or> p_state ps = JNull
                     then (case propertyOf (states ps) ''open'' of Some n \<Rightarrow> JNum n | None \<Rightarrow> JUndefined)
                     else p_state ps)\<rparr>;
          this = \<lparr>params = ps1, classList = [''h5p-game-map-path''],
                  style = \<lparr>style_left = None, style_top = None, style_width = None,
                            style_transform = None, style_borderTopWidth = None\<rparr>,
                  frames = 0, hideCalls = 0, state = None,
                  isReachableState = None, isVisibleState = None\<rparr>
      in if \<not> p_visible ps1 then Path_hide this else Path_show this)"

subsection \<open>Calls from outside\<close>

text \<open>
  The methods that change the instance, as one type of calls, and the instances that a
  sequence of calls can lead to from the constructor. \<open>Frame\<close> is the browser running
  the next animation frame.
\<close>

datatype call =
    CallSetReachable jsval
  | CallShow
  | CallHide
  | CallUpdate upd
  | CallResize mapSize
  | CallReset bool
  | CallSetState jsval bool
  | Frame

fun exec :: "call \<Rightarrow> path \<Rightarrow> outcome" where
  "exec (CallSetReachable st) this = Returned (setReachable st this)"
| "exec CallShow this = Returned (Path_show this)"
| "exec CallHide this = Returned (Path_hide this)"
| "exec (CallUpdate ps) this = Returned (update ps this)"
| "exec (CallResize mapSize) this = Returned (resize mapSize this)"
| "exec (CallReset isInitial) this = reset isInitial this"
| "exec (CallSetState st force) this = setState st force this"
| "exec Frame this = Returned (animationFrame this)"

inductive reachable :: "params \<Rightarrow> path \<Rightarrow> bool" for ps :: params where
  constructed: "reachable ps (Path ps)"
| called: "reachable ps this \<Longrightarrow> reachable ps (after (exec c this))"

subsection \<open>Well-formed enumerations\<close>

text \<open>
  An object lists each of its keys once. The keys of the enumeration are names of
  constants: none of them is written with digits and a sign only, as the property key
  of a number is.
\<close>

definition numeric_key :: "string \<Rightarrow> bool" where
  "numeric_key k = (k \<noteq> [] \<and> list_all (\<lambda>c. c \<in> set ''-0123456789'') k)"

definition named_constants :: "(string \<times> int) list \<Rightarrow> bool" where
  "named_constants sts =
     (distinct (map fst sts) \<and> list_all (\<lambda>entry. \<not> numeric_key (fst entry)) sts)"

text \<open>The class list carries the tag of an entry exactly when its value is the stored state.\<close>

definition tags_match :: "(string \<times> int) list \<Rightarrow> int option \<Rightarrow> string list \<Rightarrow> bool" where
  "tags_match sts st cl = list_all (\<lambda>entry. (tag (fst entry) \<in> set cl) = (Some (snd entry) = st)) sts"

text \<open>The tags of the enumeration that are in the class list.\<close>

definition activeTags :: "path \<Rightarrow> string list" where
  "activeTags this =
     filter (\<lambda>c. c \<in> set (classList this)) (map (\<lambda>entry. tag (fst entry)) (states (params this)))"

subsection \<open>Example data\<close>

text \<open>An enumeration with members besides \<open>open\<close> and \<open>cleared\<close>.\<close>

definition exampleStates :: "(string \<times> int) list" where
  "exampleStates =
     [(''unstarted'', 0), (''opened'', 1), (''completed'', 2), (''cleared'', 3),
      (''locked'', 4), (''unlocking'', 5), (''open'', 6)]"

text \<open>
  A connector from the box at (0, 0) to the box at (50, 0), both 10 by 10 percent,
  configured cleared and visible, with the default path width.
\<close>

definition exampleParams :: "bool \<Rightarrow> params" where
  "exampleParams dp =
     \<lparr>p_state = JNum 3, p_visible = True, pathWidth = Num 0.2,
      telemetryFrom = \<lparr>box_x = Num 0, box_y = Num 0, box_width = Num 10, box_height = Num 10\<rparr>,
      telemetryTo = \<lparr>box_x = Num 50, box_y = Num 0, box_width = Num 10, box_height = Num 10\<rparr>,
      fromId = ''from'', toId = ''to'', states = exampleStates, displayPaths = dp\<rparr>"

text \<open>
  A connector whose from-box is straight below its to-box, with the negative zero as the
  x of the from-box.
\<close>

definition exampleVertical :: params where
  "exampleVertical =
     (exampleParams True)
       \<lparr>telemetryFrom := \<lparr>box_x = NegZero, box_y = Num 50, box_width = Num 10, box_height = Num 10\<rparr>,
        telemetryTo := \<lparr>box_x = Num 0, box_y = Num 0, box_width = Num 10, box_height = Num 10\<rparr>\<rparr>"

section \<open>Auxiliary facts\<close>

subsection \<open>Property keys of numbers\<close>

lemma digit_char_numeric: "d < 10 \<Longrightarrow> digit_char d \<in> set ''-0123456789''"
proof -
  assume "d < 10"
  then have "d = 0 \<or> d = 1 \<or> d = 2 \<or> d = 3 \<or> d = 4 \<or> d = 5 \<or> d = 6 \<or> d = 7
    \<or> d = 8 \<or> d = 9" by arith
  then show ?thesis by (elim disjE) (simp_all add: digit_char_def)
qed

lemma decimal_numeric: "decimal n \<noteq> [] \<and> list_all (\<lambda>c. c \<in> set ''-0123456789'') (decimal n)"
proof (induction n rule: decimal.induct)
  case (1 n)
  show ?case
  proof (cases "n < 10")
    case True
    then show ?thesis using digit_char_numeric [of n] by (subst decimal.simps, subst decimal.simps) simp
  next
    case False
    have "n mod 10 < 10" by simp
    then have "digit_char (n mod 10) \<in> set ''-0123456789''" by (rule digit_char_numeric)
    with False 1 show ?thesis by (subst decimal.simps, subst decimal.simps) simp
  qed
qed

lemma toPropertyKey_numeric: "numeric_key (toPropertyKey n)"
  using decimal_numeric [of "nat n"] decimal_numeric [of "nat (- n)"]
  by (simp add: numeric_key_def toPropertyKey_def)

lemma propertyOf_absent: "k \<notin> fst ` set sts \<Longrightarrow> propertyOf sts k = None"
  by (induction sts) (auto simp: propertyOf_def)

lemma named_constants_no_index:
  assumes "named_constants sts"
  shows "propertyOf sts (toPropertyKey n) = None"
proof (rule propertyOf_absent)
  show "toPropertyKey n \<notin> fst ` set sts"
  proof
    assume "toPropertyKey n \<in> fst ` set sts"
    then obtain e where "e \<in> set sts" "fst e = toPropertyKey n" by auto
    with assms have "\<not> numeric_key (toPropertyKey n)"
      by (auto simp: named_constants_def list_all_iff)
    then show False using toPropertyKey_numeric by simp
  qed
qed

subsection \<open>The tag loop\<close>

lemma tag_inject: "(tag k = tag k') = (k = k')"
  by (simp add: tag_def)

lemma tag_not_marker: "tag k \<noteq> ''display-none''" "tag k \<noteq> ''transparent''" "tag k \<noteq> ''h5p-game-map-path''"
  by (simp_all add: tag_def)

lemma toggleTags_other:
  "c \<notin> (\<lambda>e. tag (fst e)) ` set sts \<Longrightarrow> (c \<in> set (toggleTags sts st cl)) = (c \<in> set cl)"
  by (induction sts st cl rule: toggleTags.induct)
     (auto simp: classList_add_def classList_remove_def)

lemma toggleTags_match:
  "distinct (map fst sts) \<Longrightarrow> tags_match sts st (toggleTags sts st cl)"
proof (induction sts st cl rule: toggleTags.induct)
  case (1 st cl)
  show ?case by (simp add: tags_match_def)
next
  case (2 key val entries st cl)
  then have d: "distinct (map fst entries)" and k: "key \<notin> fst ` set entries" by auto
  from k have "tag key \<notin> (\<lambda>e. tag (fst e)) ` set entries" by (force simp: tag_inject)
  then have "(tag key \<in> set (toggleTags ((key, val) # entries) st cl)) = (Some val = st)"
    by (auto simp: toggleTags_other classList_add_def classList_remove_def)
  moreover have "tags_match entries st (toggleTags ((key, val) # entries) st cl)"
    using 2 d by simp
  ultimately show ?case by (simp add: tags_match_def)
qed

lemma toggleTags_fixed:
  "tags_match sts st cl \<Longrightarrow> toggleTags sts st cl = cl"
  by (induction sts st cl rule: toggleTags.induct)
     (auto simp: tags_match_def classList_add_def classList_remove_def)

lemma tags_match_marker:
  "c \<in> {''display-none'', ''transparent''} \<Longrightarrow>
   tags_match sts st (classList_add c cl) = tags_match sts st cl"
  "c \<in> {''display-none'', ''transparent''} \<Longrightarrow>
   tags_match sts st (classList_remove c cl) = tags_match sts st cl"
  using tag_not_marker
  by (auto simp: tags_match_def classList_add_def classList_remove_def list_all_iff)

lemma propertyOf_SomeD: "propertyOf sts k = Some v \<Longrightarrow> (k, v) \<in> set sts"
  by (induction sts) (auto simp: propertyOf_def split: if_splits)

lemma propertyOf_find:
  "propertyOf sts k = Some v \<Longrightarrow> \<exists>e. find (\<lambda>entry. fst entry = k) sts = Some e \<and> snd e = v"
  by (auto simp: propertyOf_def)

subsection \<open>What each method leaves alone\<close>

lemma Path_show_fields [simp]:
  "params (Path_show this) = params this"
  "state (Path_show this) = state this"
  "hideCalls (Path_show this) = hideCalls this"
  "isReachableState (Path_show this) = isReachableState this"
  "style (Path_show this) = style this"
  by (simp_all add: Path_show_def)

lemma Path_hide_fields [simp]:
  "params (Path_hide this) = params this"
  "state (Path_hide this) = state this"
  "hideCalls (Path_hide this) = Suc (hideCalls this)"
  "isReachableState (Path_hide this) = isReachableState this"
  "isVisibleState (Path_hide this) = Some False"
  "style (Path_hide this) = style this"
  by (simp_all add: Path_hide_def)

lemma setReachable_fields [simp]:
  "params (setReachable a this) = params this"
  "state (setReachable a this) = state this"
  "style (setReachable a this) = style this"
  by (simp_all add: setReachable_def isReachable_def Let_def split: jsval.splits)

lemma update_fields [simp]:
  "params (update u this) = params this"
  "state (update u this) = state this"
  "classList (update u this) = classList this"
  "hideCalls (update u this) = hideCalls this"
  "isVisibleState (update u this) = isVisibleState this"
  "isReachableState (update u this) = isReachableState this"
  by (simp_all add: update_def Let_def)

lemma resize_fields [simp]:
  "params (resize ms this) = params this"
  "state (resize ms this) = state this"
  "classList (resize ms this) = classList this"
  "hideCalls (resize ms this) = hideCalls this"
  "isVisibleState (resize ms this) = isVisibleState this"
  "isReachableState (resize ms this) = isReachableState this"
  by (simp_all add: resize_def split: option.splits)

lemma animationFrame_fields [simp]:
  "params (animationFrame this) = params this"
  "state (animationFrame this) = state this"
  "hideCalls (animationFrame this) = hideCalls this"
  "isVisibleState (animationFrame this) = isVisibleState this"
  "isReachableState (animationFrame this) = isReachableState this"
  by (simp_all add: animationFrame_def)

lemma setState_fields [simp]:
  "params (after (setState a f this)) = params this"
  "hideCalls (after (setState a f this)) = hideCalls this"
  "isVisibleState (after (setState a f this)) = isVisibleState this"
  "isReachableState (after (setState a f this)) = isReachableState this"
  "style (after (setState a f this)) = style this"
  by (simp_all add: setState_def Let_def split: jsval.splits option.splits)

lemma reset_unfold:
  "\<exists>st. reset i this =
     (case setState st False (setReachable (JBool True) this) of
        Threw e p \<Rightarrow> Threw e p
      | Returned p \<Rightarrow>
          Returned (if i \<and> p_visible (params this) then Path_show p else Path_hide p))"
proof -
  define p1 where "p1 = setReachable (JBool True) this"
  define st where "st = (if i then p_state (params p1)
     else (case propertyOf (states (params p1)) ''open'' of Some n \<Rightarrow> JNum n | None \<Rightarrow> JUndefined))"
  have "params (after (setState st False p1)) = params this"
    by (simp add: p1_def)
  then have "reset i this =
     (case setState st False p1 of
        Threw e p \<Rightarrow> Threw e p
      | Returned p \<Rightarrow>
          Returned (if i \<and> p_visible (params this) then Path_show p else Path_hide p))"
    unfolding reset_def Let_def p1_def [symmetric] st_def [symmetric]
    by (cases "setState st False p1") simp_all
  then show ?thesis unfolding p1_def by blast
qed

lemma reset_fields [simp]:
  "params (after (reset i this)) = params this"
  "style (after (reset i this)) = style this"
proof -
  obtain st where r: "reset i this =
     (case setState st False (setReachable (JBool True) this) of
        Threw e p \<Rightarrow> Threw e p
      | Returned p \<Rightarrow>
          Returned (if i \<and> p_visible (params this) then Path_show p else Path_hide p))"
    using reset_unfold by blast
  have "params (after (setState st False (setReachable (JBool True) this))) = params this"
    "style (after (setState st False (setReachable (JBool True) this))) = style this"
    by simp_all
  then show "params (after (reset i this)) = params this"
    "style (after (reset i this)) = style this"
    unfolding r by (cases "setState st False (setReachable (JBool True) this)"; simp)+
qed

lemma exec_params [simp]: "params (after (exec c this)) = params this"
  by (cases c) simp_all

lemma Path_params: "states (params (Path ps)) = states ps"
  "displayPaths (params (Path ps)) = displayPaths ps"
  "p_visible (params (Path ps)) = p_visible ps"
  by (simp_all add: Path_def Let_def)

lemma reachable_params: "reachable ps this \<Longrightarrow> params this = params (Path ps)"
  by (induction rule: reachable.induct) simp_all

subsection \<open>Invariants of the instances a sequence of calls can reach\<close>

lemma tags_match_show_hide [simp]:
  "tags_match sts st (classList (Path_show this)) = tags_match sts st (classList this)"
  "tags_match sts st (classList (Path_hide this)) = tags_match sts st (classList this)"
  "tags_match sts st (classList (animationFrame this)) = tags_match sts st (classList this)"
  "tags_match sts st (classList (setReachable a this)) = tags_match sts st (classList this)"
  by (simp_all add: Path_show_def Path_hide_def animationFrame_def setReachable_def
      isReachable_def Let_def tags_match_marker split: jsval.splits)

lemma setState_tags:
  assumes "distinct (map fst (states (params this)))"
    and "tags_match (states (params this)) (state this) (classList this)"
  shows "tags_match (states (params this)) (state (after (setState a f this)))
           (classList (after (setState a f this)))"
  using assms
  by (auto simp: setState_def Let_def toggleTags_match split: jsval.splits option.splits)

lemma setState_range:
  assumes "named_constants (states (params this))"
    and "state this \<in> {None, propertyOf (states (params this)) ''open'',
           propertyOf (states (params this)) ''cleared''}"
  shows "state (after (setState a f this)) \<in> {None, propertyOf (states (params this)) ''open'',
           propertyOf (states (params this)) ''cleared''}"
  using assms
  by (auto simp: setState_def Let_def named_constants_no_index split: jsval.splits option.splits)

lemma exec_invariant:
  assumes "named_constants (states (params this))"
    and "tags_match (states (params this)) (state this) (classList this)"
    and "state this \<in> {None, propertyOf (states (params this)) ''open'',
           propertyOf (states (params this)) ''cleared''}"
  shows "tags_match (states (params this)) (state (after (exec c this)))
           (classList (after (exec c this))) \<and>
         state (after (exec c this)) \<in> {None, propertyOf (states (params this)) ''open'',
           propertyOf (states (params this)) ''cleared''}"
proof -
  from assms(1) have d: "distinct (map fst (states (params this)))"
    by (simp add: named_constants_def)
  show ?thesis
  proof (cases c)
    case (CallSetState a f)
    then show ?thesis using setState_tags [OF d assms(2)] setState_range [OF assms(1) assms(3)]
      by simp
  next
    case (CallReset i)
    obtain st where r: "reset i this =
       (case setState st False (setReachable (JBool True) this) of
          Threw e p \<Rightarrow> Threw e p
        | Returned p \<Rightarrow>
            Returned (if i \<and> p_visible (params this) then Path_show p else Path_hide p))"
      using reset_unfold by blast
    let ?p1 = "setReachable (JBool True) this"
    have t: "tags_match (states (params ?p1)) (state (after (setState st False ?p1)))
           (classList (after (setState st False ?p1)))"
      by (rule setState_tags) (use d assms(2) in simp_all)
    have s: "state (after (setState st False ?p1)) \<in> {None, propertyOf (states (params ?p1)) ''open'',
           propertyOf (states (params ?p1)) ''cleared''}"
      by (rule setState_range) (use assms in simp_all)
    from t s show ?thesis unfolding CallReset exec.simps r
      by (cases "setState st False ?p1") simp_all
  qed (use assms in simp_all)
qed

lemma Path_initial:
  "state (Path ps) = None" "tags_match (states ps) None (classList (Path ps))"
  "hideCalls (Path ps) = (if p_visible ps then 0 else 1)"
  using tag_not_marker
  by (auto simp: Path_def Let_def Path_show_def Path_hide_def tags_match_def list_all_iff
      classList_add_def classList_remove_def)

lemma reachable_invariant:
  assumes "named_constants (states ps)" and "reachable ps this"
  shows "tags_match (states ps) (state this) (classList this) \<and>
         state this \<in> {None, propertyOf (states ps) ''open'', propertyOf (states ps) ''cleared''}"
  using assms(2)
proof (induction rule: reachable.induct)
  case constructed
  show ?case by (simp add: Path_initial)
next
  case (called this c)
  have p: "params this = params (Path ps)" using called.hyps by (rule reachable_params)
  show ?case using exec_invariant [of this c] called.IH assms(1)
    by (simp add: p Path_params)
qed

subsection \<open>Setting a state without force\<close>

lemma setState_number:
  "setState (JNum n) False this =
     (let sts = states (params this);
          newState = (if Some n = propertyOf sts ''open'' then Some n
                      else if Some n = propertyOf sts ''cleared'' then Some n else None)
      in if falsy (state this) \<or> state this \<noteq> newState
         then Returned (this\<lparr>state := newState,
                             classList := toggleTags sts newState (classList this)\<rparr>)
         else Returned this)"
  by (auto simp: setState_def Let_def)

lemma setState_string:
  "propertyOf (states (params this)) k = Some n \<Longrightarrow>
   setState (JStr k) f this = setState (JNum n) f this"
  by (auto simp: setState_def Let_def dest!: propertyOf_find)

lemma setState_same:
  assumes "tags_match (states (params this)) (state this) (classList this)"
    and "state this = Some v"
    and "Some v = propertyOf (states (params this)) ''open'' \<or>
         Some v = propertyOf (states (params this)) ''cleared''"
  shows "setState (JNum v) False this = Returned this"
proof -
  have "this\<lparr>state := Some v,
          classList := toggleTags (states (params this)) (Some v) (classList this)\<rparr> = this"
    using assms(1,2) by (simp add: toggleTags_fixed)
  with assms(2,3) show ?thesis
    by (auto simp: setState_number Let_def)
qed

lemma setState_stores:
  assumes "Some v = propertyOf (states (params this)) ''open'' \<or>
           Some v = propertyOf (states (params this)) ''cleared''"
  shows "\<exists>p. setState (JNum v) False this = Returned p \<and> state p = Some v \<and>
           params p = params this \<and> isVisibleState p = isVisibleState this \<and>
           isReachableState p = isReachableState this"
  using assms by (auto simp: setState_number Let_def)

lemma exec_visible:
  assumes "\<not> displayPaths (params this)"
    and "isVisibleState this = (if hideCalls this = 0 then None else Some False)"
  shows "isVisibleState (after (exec c this)) =
           (if hideCalls (after (exec c this)) = 0 then None else Some False)"
proof (cases c)
  case (CallReset i)
  obtain st where r: "reset i this =
     (case setState st False (setReachable (JBool True) this) of
        Threw e p \<Rightarrow> Threw e p
      | Returned p \<Rightarrow>
          Returned (if i \<and> p_visible (params this) then Path_show p else Path_hide p))"
    using reset_unfold by blast
  let ?p1 = "setReachable (JBool True) this"
  have "isVisibleState ?p1 = isVisibleState this" "hideCalls ?p1 = hideCalls this"
    by (simp_all add: setReachable_def isReachable_def Let_def)
  then have "isVisibleState (after (setState st False ?p1)) =
     (if hideCalls (after (setState st False ?p1)) = 0 then None else Some False)"
    using assms(2) by simp
  moreover have "\<not> displayPaths (params (after (setState st False ?p1)))"
    using assms(1) by simp
  ultimately show ?thesis unfolding CallReset exec.simps r
    by (cases "setState st False ?p1") (auto simp: Path_show_def)
next
  case (CallSetReachable a)
  then show ?thesis using assms
    by (cases a) (auto simp: setReachable_def isReachable_def Let_def)
qed (use assms in \<open>auto simp: Path_show_def\<close>)

lemma setState_markers:
  assumes "c = ''display-none'' \<or> c = ''transparent''"
  shows "(c \<in> set (classList (after (setState a f this)))) = (c \<in> set (classList this))"
proof -
  have "c \<notin> (\<lambda>e. tag (fst e)) ` set sts" for sts :: "(string \<times> int) list"
    using assms tag_not_marker by auto
  then show ?thesis
    by (auto simp: setState_def Let_def toggleTags_other split: jsval.splits option.splits)
qed

text \<open>
  Without force, on an instance that calls have led to from the constructor, with an
  enumeration of named constants: \<open>setState\<close> with the value that is the current state
  returns the instance unchanged, a second \<open>setState('open')\<close> changes nothing, and a
  call of \<open>setState\<close> that changes the class list has changed the stored state.
\<close>

lemma setState_unforced_again:
  assumes "named_constants (states ps)" and "reachable ps this"
  shows "(getState this = Some v \<longrightarrow> setState (JNum v) False this = Returned this) \<and>
         (setState (JStr ''open'') False this = Returned this1 \<longrightarrow>
            setState (JStr ''open'') False this1 = Returned this1 \<and>
            (getState this \<noteq> getState this1 \<longrightarrow> classList this1 \<noteq> classList this)) \<and>
         (setState a force this = Returned this2 \<and> classList this2 \<noteq> classList this \<longrightarrow>
            getState this2 \<noteq> getState this)"
proof -
  have p: "states (params this) = states ps"
    using reachable_params [OF assms(2)] by (simp add: Path_params)
  have inv: "tags_match (states ps) (state this) (classList this)"
    "state this \<in> {None, propertyOf (states ps) ''open'', propertyOf (states ps) ''cleared''}"
    using reachable_invariant [OF assms] by simp_all
  have d: "distinct (map fst (states ps))" using assms(1) by (simp add: named_constants_def)
  have a: "setState (JNum v) False this = Returned this" if "getState this = Some v"
    using that inv by (intro setState_same) (auto simp: p getState_def)
  have b: "setState (JStr ''open'') False this1 = Returned this1 \<and>
            (getState this \<noteq> getState this1 \<longrightarrow> classList this1 \<noteq> classList this)"
    if r: "setState (JStr ''open'') False this = Returned this1"
  proof -
    from r obtain n where n: "propertyOf (states ps) ''open'' = Some n"
      by (cases "propertyOf (states ps) ''open''")
         (auto simp: setState_def Let_def p propertyOf_def split: option.splits)
    have r': "setState (JNum n) False this = Returned this1"
      using r n by (simp add: setState_string p)
    have this1: "params this1 = params this" "state this1 = Some n"
      "tags_match (states ps) (state this1) (classList this1)"
      using r' n inv(1) toggleTags_match [OF d, of "Some n" "classList this"]
      by (auto simp: setState_number Let_def p split: if_splits)
    have "setState (JNum n) False this1 = Returned this1"
      using this1 n by (intro setState_same) (simp_all add: p)
    then have 1: "setState (JStr ''open'') False this1 = Returned this1"
      using n this1(1) by (simp add: setState_string p)
    have 2: "classList this1 \<noteq> classList this" if "getState this \<noteq> getState this1"
    proof -
      have "(''open'', n) \<in> set (states ps)" using n by (rule propertyOf_SomeD)
      then have "tag ''open'' \<in> set (classList this1)" "tag ''open'' \<notin> set (classList this)"
        using this1(2,3) inv(1) that
        by (auto simp: tags_match_def list_all_iff getState_def)
      then show ?thesis by auto
    qed
    from 1 2 show ?thesis by blast
  qed
  have c: "getState this2 \<noteq> getState this"
    if "setState a force this = Returned this2" "classList this2 \<noteq> classList this"
    using that inv(1)
    by (auto simp: setState_def Let_def p getState_def toggleTags_fixed
        split: jsval.splits option.splits if_splits)
  from a b c show ?thesis by blast
qed

subsection \<open>Geometry\<close>

lemmas num_defs = isNaN_def isInf_def isZero_def signed_zero_def signed_inf_def exact_def
  num_add_def num_sub_def num_mul_def num_div_def num_lt_def num_ge_def Math_PI_def
  Math_min_def Math_max_def

lemma telemetry_width:
  "computePathTelemetry ms this = Some t \<Longrightarrow>
   tel_width t =
     strokeWidth (num_mul (num_div (box_width (telemetryFrom (params this))) (Num MATH_HUNDRED))
                    (ms_width ms))
       (pathWidth (params this))"
  by (auto simp: computePathTelemetry_def Let_def split: if_splits)

lemma telemetry_angle:
  "computePathTelemetry ms this = Some t \<Longrightarrow>
   dx = num_sub (num_mul (num_div (box_x (telemetryFrom (params this))) (Num MATH_HUNDRED))
                   (ms_width ms))
          (num_mul (num_div (box_x (telemetryTo (params this))) (Num MATH_HUNDRED)) (ms_width ms)) \<Longrightarrow>
   dy = num_sub (num_mul (num_div (box_y (telemetryFrom (params this))) (Num MATH_HUNDRED))
                   (ms_height ms))
          (num_mul (num_div (box_y (telemetryTo (params this))) (Num MATH_HUNDRED)) (ms_height ms)) \<Longrightarrow>
   tel_angle t =
     num_add (Math_atan (num_div dy dx)) (if num_ge (Math_sign dx) (Num 0) then Math_PI else Num 0)"
  by (auto simp: computePathTelemetry_def Let_def split: if_splits)

lemma strokeWidth_finite:
  assumes "0 < w" and "0 \<le> f"
  shows "strokeWidth (Num w) (Num f) = Num (min (max MIN_WIDTH_PX (f * w)) (MAX_FACTOR * w))"
    and "strokeWidth (Num w) NegZero = Num (min (max MIN_WIDTH_PX 0) (MAX_FACTOR * w))"
  using assms
  by (auto simp: strokeWidth_def num_defs MIN_WIDTH_PX_def MAX_FACTOR_def min_def max_def
      mult.commute)

lemma angle_finite:
  assumes "a \<noteq> 0" and "dy = Num b \<or> (dy = NegZero \<and> b = 0)"
  shows "num_add (Math_atan (num_div dy (Num a)))
           (if num_ge (Math_sign (Num a)) (Num 0) then Math_PI else Num 0)
         = Num (arctan (b / a) + (if sgn a \<ge> 0 then pi else 0))"
proof -
  have pos: "0 < arctan (b / a) + pi"
    using arctan_lbound [of "b / a"] pi_gt_zero by linarith
  have nz: "arctan (b / a) = 0 \<longleftrightarrow> b = 0"
    using assms(1) by (simp add: arctan_eq_zero_iff)
  show ?thesis
    using assms pos nz
    by (auto simp: num_defs sgn_real_def)
qed

lemma telemetry_defined:
  "\<not> isZero (ms_height ms) \<Longrightarrow> \<not> isZero (ms_width ms) \<Longrightarrow>
   \<exists>t. computePathTelemetry ms this = Some t"
  by (simp add: computePathTelemetry_def Let_def)

subsection \<open>Unfolding for the evaluation of concrete calls\<close>

lemmas eval_defs = setState_def Path_def exampleParams_def exampleStates_def Path_show_def
  Path_hide_def Let_def propertyOf_def falsy_def classList_add_def classList_remove_def tag_def
  getState_def isVisible_def isReachable_def setReachable_def activeTags_def reset_def
  toPropertyKey_def

lemmas example_defs = Path_def exampleParams_def exampleVertical_def Path_show_def Path_hide_def
  Let_def MATH_HUNDRED_def MATH_TWO_def MIN_WIDTH_PX_def MAX_FACTOR_def

section \<open>The claims of the specification\<close>

subsection \<open>Stroke width\<close>

text \<open>
  C1, as the code has it. For a path width fraction \<open>f\<close> in [0, 1] (either zero) and a
  from-box pixel width \<open>w > 0\<close>, the stroke width is
  \<open>min (max MIN_WIDTH_PX (f * w)) (MAX_FACTOR * w)\<close>. It never exceeds
  \<open>MAX_FACTOR * w\<close>. It is at least \<open>MIN_WIDTH_PX\<close> when
  \<open>MIN_WIDTH_PX \<le> MAX_FACTOR * w\<close>; for a narrower box the upper bound takes
  precedence and the width is \<open>MAX_FACTOR * w\<close>, below one pixel.
\<close>

theorem stroke_width_clamp:
  assumes "computePathTelemetry ms this = Some t"
    and "num_mul (num_div (box_width (telemetryFrom (params this))) (Num 100)) (ms_width ms)
         = Num w"
    and "pathWidth (params this) = Num f \<or> (pathWidth (params this) = NegZero \<and> f = 0)"
    and "0 \<le> f" and "f \<le> 1" and "0 < w"
  shows "tel_width t = Num (min (max MIN_WIDTH_PX (f * w)) (MAX_FACTOR * w)) \<and>
         num_val (tel_width t) \<le> MAX_FACTOR * w \<and>
         (MIN_WIDTH_PX \<le> MAX_FACTOR * w \<longrightarrow> MIN_WIDTH_PX \<le> num_val (tel_width t)) \<and>
         (MAX_FACTOR * w < MIN_WIDTH_PX \<longrightarrow> tel_width t = Num (MAX_FACTOR * w))"
proof -
  have "tel_width t = strokeWidth (Num w) (pathWidth (params this))"
    using telemetry_width [OF assms(1)] assms(2) by (simp add: MATH_HUNDRED_def)
  then have "tel_width t = Num (min (max MIN_WIDTH_PX (f * w)) (MAX_FACTOR * w))"
    using assms(3) strokeWidth_finite [OF assms(6,4)] by auto
  then show ?thesis by auto
qed

text \<open>
  The example connector on a map 1000 pixels wide: the box is 100 pixels wide, the
  stroke 20, between 1 and 30.
\<close>

theorem stroke_width_clamp_witness:
  "\<exists>t. computePathTelemetry \<lparr>ms_width = Num 1000, ms_height = Num 1000\<rparr>
           (Path (exampleParams True)) = Some t \<and>
       num_mul (num_div (box_width (telemetryFrom (params (Path (exampleParams True))))) (Num 100))
         (Num 1000) = Num 100 \<and>
       pathWidth (params (Path (exampleParams True))) = Num 0.2 \<and>
       tel_width t = Num 20 \<and> MIN_WIDTH_PX \<le> num_val (tel_width t) \<and>
       num_val (tel_width t) \<le> MAX_FACTOR * 100"
proof -
  obtain t where t: "computePathTelemetry \<lparr>ms_width = Num 1000, ms_height = Num 1000\<rparr>
      (Path (exampleParams True)) = Some t"
    using telemetry_defined [of "\<lparr>ms_width = Num 1000, ms_height = Num 1000\<rparr>"]
    by (auto simp: isZero_def)
  have w: "num_mul (num_div (box_width (telemetryFrom (params (Path (exampleParams True)))))
      (Num 100)) (ms_width \<lparr>ms_width = Num 1000, ms_height = Num 1000\<rparr>) = Num 100"
    and f: "pathWidth (params (Path (exampleParams True))) = Num 0.2"
    by (simp_all add: example_defs num_defs)
  have "tel_width t = Num 20 \<and> MIN_WIDTH_PX \<le> num_val (tel_width t) \<and>
      num_val (tel_width t) \<le> MAX_FACTOR * 100"
    using stroke_width_clamp [OF t w, of "2 / 10"] f
    by (simp add: MIN_WIDTH_PX_def MAX_FACTOR_def)
  with t w f show ?thesis by (simp add: MIN_WIDTH_PX_def MAX_FACTOR_def)
qed

text \<open>
  C1 as stated fails on a narrow box. On a map 20 pixels wide the example box is
  2 pixels wide; with the fraction 0.2 the stroke is 0.6 pixels, less than
  \<open>MIN_WIDTH_PX\<close>.
\<close>

theorem stroke_width_below_minimum:
  "computePathTelemetry \<lparr>ms_width = Num 20, ms_height = Num 20\<rparr> (Path (exampleParams True))
     \<noteq> None \<and>
   num_mul (num_div (box_width (telemetryFrom (params (Path (exampleParams True))))) (Num 100))
     (Num 20) = Num 2 \<and>
   pathWidth (params (Path (exampleParams True))) = Num 0.2 \<and>
   map_option tel_width
     (computePathTelemetry \<lparr>ms_width = Num 20, ms_height = Num 20\<rparr> (Path (exampleParams True)))
     = Some (Num 0.6) \<and>
   \<not> MIN_WIDTH_PX \<le> 0.6 \<and> \<not> num_ge (Num 0.6) (Num MIN_WIDTH_PX)"
proof -
  obtain t where t: "computePathTelemetry \<lparr>ms_width = Num 20, ms_height = Num 20\<rparr>
      (Path (exampleParams True)) = Some t"
    using telemetry_defined [of "\<lparr>ms_width = Num 20, ms_height = Num 20\<rparr>"]
    by (auto simp: isZero_def)
  have "tel_width t = Num 0.6"
    using telemetry_width [OF t]
    by (simp add: example_defs num_defs strokeWidth_def)
  with t show ?thesis
    by (simp add: example_defs num_defs)
qed

subsection \<open>Resolving a state name\<close>

text \<open>
  C2 at a string that is no key of the enumeration: \<open>find\<close> gives \<open>undefined\<close>,
  reading its index 1 throws a TypeError. The instance is as before, but the call does
  not return.
\<close>

theorem setState_unknown_key_throws:
  "setState (JStr ''done'') False (Path (exampleParams True))
     = Threw TypeError (Path (exampleParams True))"
  by (simp add: eval_defs)

subsection \<open>A member other than open and cleared\<close>

text \<open>
  C3 at the member \<open>locked\<close> (4) of the example enumeration, on a connector that is
  open: without force the call is not ignored. \<open>newState\<close> stays \<open>undefined\<close>,
  differs from the stored state and is stored; the loop then removes the tag of \<open>open\<close>.
\<close>

theorem setState_other_member_clears_state:
  "getState (after (setState (JStr ''open'') False (Path (exampleParams True)))) = Some 6 \<and>
   tag ''open'' \<in> set (classList (after (setState (JStr ''open'') False
                                        (Path (exampleParams True))))) \<and>
   getState (after (setState (JNum 4) False
     (after (setState (JStr ''open'') False (Path (exampleParams True)))))) = None \<and>
   tag ''open'' \<notin> set (classList (after (setState (JNum 4) False
     (after (setState (JStr ''open'') False (Path (exampleParams True)))))))"
  by (simp add: eval_defs)

subsection \<open>The zero-size guard\<close>

text \<open>
  C4. With a map size whose width or height is 0 (either zero), whatever the boxes and
  the path width, \<open>computePathTelemetry\<close> returns \<open>null\<close> and \<open>resize\<close> leaves
  the instance, its style included, as it was.
\<close>

theorem zero_size_guard:
  assumes "isZero (ms_width ms) \<or> isZero (ms_height ms)"
  shows "computePathTelemetry ms this = None \<and> resize ms this = this"
  using assms by (auto simp: computePathTelemetry_def resize_def)

text \<open>The two map sizes the specification names, and one with a negative zero.\<close>

theorem zero_size_guard_witness:
  "isZero (Num 0) \<and> isZero NegZero \<and>
   computePathTelemetry \<lparr>ms_width = Num 0, ms_height = Num 0\<rparr> (Path (exampleParams True))
     = None \<and>
   resize \<lparr>ms_width = Num 0, ms_height = Num 0\<rparr> (Path (exampleParams True))
     = Path (exampleParams True) \<and>
   computePathTelemetry \<lparr>ms_width = Num 5, ms_height = Num 0\<rparr> (Path (exampleParams True))
     = None \<and>
   resize \<lparr>ms_width = Num 5, ms_height = Num 0\<rparr> (Path (exampleParams True))
     = Path (exampleParams True) \<and>
   resize \<lparr>ms_width = NegZero, ms_height = Num 5\<rparr> (Path (exampleParams True))
     = Path (exampleParams True)"
  using zero_size_guard [of "\<lparr>ms_width = Num 0, ms_height = Num 0\<rparr>" "Path (exampleParams True)"]
    zero_size_guard [of "\<lparr>ms_width = Num 5, ms_height = Num 0\<rparr>" "Path (exampleParams True)"]
    zero_size_guard [of "\<lparr>ms_width = NegZero, ms_height = Num 5\<rparr>" "Path (exampleParams True)"]
  by (simp add: isZero_def)

subsection \<open>The angle\<close>

text \<open>
  C5. With \<open>(dx, dy)\<close> the pixel position of the from-box minus that of the to-box,
  the angle is \<open>atan (dy / dx)\<close>, plus \<open>\<pi>\<close> exactly when \<open>sign dx \<ge> 0\<close>. For
  \<open>dx\<close> other than zero and \<open>dy\<close> finite that is the arc tangent of the real
  quotient, plus \<open>\<pi>\<close> when \<open>dx\<close> is positive. Where \<open>dx\<close> is a zero, its
  sign decides: the quotient is the infinity of the sign of \<open>dy\<close> for the positive
  zero and the opposite one for the negative zero, the angle a quarter turn up or down
  plus \<open>\<pi>\<close>, and \<open>NaN\<close> when \<open>dy\<close> is a zero too. For the example connector on
  a map of 1000 by 1000 pixels the angle is 0 and the stroke width is 20.
\<close>

theorem angle_formula:
  assumes "computePathTelemetry ms this = Some t"
    and "dx = num_sub
                (num_mul (num_div (box_x (telemetryFrom (params this))) (Num 100)) (ms_width ms))
                (num_mul (num_div (box_x (telemetryTo (params this))) (Num 100)) (ms_width ms))"
    and "dy = num_sub
                (num_mul (num_div (box_y (telemetryFrom (params this))) (Num 100)) (ms_height ms))
                (num_mul (num_div (box_y (telemetryTo (params this))) (Num 100)) (ms_height ms))"
  shows "tel_angle t = num_add (Math_atan (num_div dy dx))
                         (if num_ge (Math_sign dx) (Num 0) then Num pi else Num 0) \<and>
         (dx = Num a \<and> a \<noteq> 0 \<and> (dy = Num b \<or> dy = NegZero \<and> b = 0) \<longrightarrow>
            tel_angle t = Num (arctan (b / a) + (if sgn a \<ge> 0 then pi else 0))) \<and>
         (dx = Num 0 \<and> dy = Num b \<and> 0 < b \<longrightarrow> tel_angle t = Num (pi / 2 + pi)) \<and>
         (dx = Num 0 \<and> dy = Num b \<and> b < 0 \<longrightarrow> tel_angle t = Num (- (pi / 2) + pi)) \<and>
         (dx = NegZero \<and> dy = Num b \<and> 0 < b \<longrightarrow> tel_angle t = Num (- (pi / 2) + pi)) \<and>
         (dx = NegZero \<and> dy = Num b \<and> b < 0 \<longrightarrow> tel_angle t = Num (pi / 2 + pi)) \<and>
         (isZero dx \<and> isZero dy \<longrightarrow> tel_angle t = NaN) \<and>
         (\<exists>t0. computePathTelemetry \<lparr>ms_width = Num 1000, ms_height = Num 1000\<rparr>
                  (Path (exampleParams True)) = Some t0 \<and>
               tel_angle t0 = Num 0 \<and> tel_width t0 = Num 20)"
proof -
  have f: "tel_angle t = num_add (Math_atan (num_div dy dx))
                         (if num_ge (Math_sign dx) (Num 0) then Num pi else Num 0)"
    using telemetry_angle [OF assms(1)] assms(2,3) by (simp add: MATH_HUNDRED_def Math_PI_def)
  have 1: "tel_angle t = Num (arctan (b / a) + (if sgn a \<ge> 0 then pi else 0))"
    if "dx = Num a" "a \<noteq> 0" "dy = Num b \<or> dy = NegZero \<and> b = 0"
    using f that angle_finite [OF that(2), of dy b] by (auto simp: Math_PI_def)
  have 2: "tel_angle t = Num (pi / 2 + pi)" if "dx = Num 0" "dy = Num b" "0 < b"
    using f that by (simp add: num_defs)
  have 3: "tel_angle t = Num (- (pi / 2) + pi)" if "dx = Num 0" "dy = Num b" "b < 0"
    using f that by (simp add: num_defs)
  have 4: "tel_angle t = Num (- (pi / 2) + pi)" if "dx = NegZero" "dy = Num b" "0 < b"
    using f that by (simp add: num_defs)
  have 5: "tel_angle t = Num (pi / 2 + pi)" if "dx = NegZero" "dy = Num b" "b < 0"
    using f that by (simp add: num_defs)
  have 6: "tel_angle t = NaN" if "isZero dx" "isZero dy"
    using f that by (auto simp: num_defs)
  obtain t0 where t0: "computePathTelemetry \<lparr>ms_width = Num 1000, ms_height = Num 1000\<rparr>
      (Path (exampleParams True)) = Some t0"
    using telemetry_defined [of "\<lparr>ms_width = Num 1000, ms_height = Num 1000\<rparr>"]
    by (auto simp: isZero_def)
  have "tel_angle t0 = Num 0" "tel_width t0 = Num 20"
    using telemetry_angle [OF t0 refl refl] telemetry_width [OF t0]
    by (simp_all add: example_defs num_defs strokeWidth_def)
  with t0 have 7: "\<exists>t0. computePathTelemetry \<lparr>ms_width = Num 1000, ms_height = Num 1000\<rparr>
                  (Path (exampleParams True)) = Some t0 \<and>
               tel_angle t0 = Num 0 \<and> tel_width t0 = Num 20"
    by simp
  from f 1 2 3 4 5 6 7 show ?thesis by blast
qed

text \<open>
  The example: \<open>dx = 0 - 500\<close>, \<open>dy = 0\<close>, no offset, angle 0. And the connector
  with the negative zero: \<open>dx\<close> is the negative zero, \<open>dy = 500\<close>, the quotient
  the negative infinity, the angle \<open>- \<pi> / 2 + \<pi>\<close>.
\<close>

theorem angle_formula_witness:
  "(\<exists>t. computePathTelemetry \<lparr>ms_width = Num 1000, ms_height = Num 1000\<rparr>
           (Path (exampleParams True)) = Some t \<and>
        (0 - 500 \<noteq> (0::real)) \<and>
        tel_angle t = Num (arctan (0 / (0 - 500)) + 0) \<and> tel_angle t = Num 0) \<and>
   (\<exists>t. computePathTelemetry \<lparr>ms_width = Num 1000, ms_height = Num 1000\<rparr>
           (Path exampleVertical) = Some t \<and>
        tel_angle t = Num (- (pi / 2) + pi))"
proof -
  let ?ms = "\<lparr>ms_width = Num 1000, ms_height = Num 1000\<rparr>"
  obtain t where t: "computePathTelemetry ?ms (Path (exampleParams True)) = Some t"
    using telemetry_defined [of ?ms] by (auto simp: isZero_def)
  obtain u where u: "computePathTelemetry ?ms (Path exampleVertical) = Some u"
    using telemetry_defined [of ?ms] by (auto simp: isZero_def)
  have a: "tel_angle t = Num (arctan (0 / (0 - 500)) + 0) \<and> tel_angle t = Num 0"
    using angle_formula [OF t refl refl, of "0 - 500" 0]
    by (simp add: example_defs num_defs)
  have b: "tel_angle u = Num (- (pi / 2) + pi)"
    using angle_formula [OF u refl refl, of _ 500]
    by (simp add: example_defs num_defs)
  from t u a b show ?thesis by simp
qed

subsection \<open>Setting the current state again\<close>

text \<open>
  C6 on the example connector, open: \<open>setState(6)\<close>, the value of the current state,
  changes nothing without force. With \<open>force\<close> the same call reads \<open>states[6]\<close>,
  which no key of the enumeration gives, stores \<open>undefined\<close> and removes the tag of
  \<open>open\<close>: a call with the current state that updates the tags.
\<close>

theorem setState_forced_again_clears_state:
  "getState (after (setState (JStr ''open'') False (Path (exampleParams True)))) = Some 6 \<and>
   activeTags (after (setState (JStr ''open'') False (Path (exampleParams True))))
     = [tag ''open''] \<and>
   setState (JNum 6) False (after (setState (JStr ''open'') False (Path (exampleParams True))))
     = Returned (after (setState (JStr ''open'') False (Path (exampleParams True)))) \<and>
   getState (after (setState (JNum 6) True
     (after (setState (JStr ''open'') False (Path (exampleParams True)))))) = None \<and>
   activeTags (after (setState (JNum 6) True
     (after (setState (JStr ''open'') False (Path (exampleParams True)))))) = [] \<and>
   classList (after (setState (JNum 6) True
       (after (setState (JStr ''open'') False (Path (exampleParams True))))))
     \<noteq> classList (after (setState (JStr ''open'') False (Path (exampleParams True))))"
  by (simp add: eval_defs)

subsection \<open>Tags after a change of state\<close>

text \<open>
  C7 on the example connector, open and carrying exactly the tag of \<open>open\<close>: the call
  \<open>setState('locked')\<close> changes the stored state, to \<open>undefined\<close>, and afterwards no
  tag of the enumeration is in the class list.
\<close>

theorem setState_change_without_tag:
  "activeTags (after (setState (JStr ''open'') False (Path (exampleParams True))))
     = [tag ''open''] \<and>
   getState (after (setState (JStr ''open'') False (Path (exampleParams True)))) = Some 6 \<and>
   getState (after (setState (JStr ''locked'') False
     (after (setState (JStr ''open'') False (Path (exampleParams True)))))) = None \<and>
   activeTags (after (setState (JStr ''locked'') False
     (after (setState (JStr ''open'') False (Path (exampleParams True)))))) = []"
  by (simp add: eval_defs)

subsection \<open>Reachability\<close>

text \<open>
  C8. \<open>setReachable\<close> with an argument that is not a boolean returns the instance
  unchanged. With \<open>false\<close> it hides the connector at once: the element gets the
  classes \<open>display-none\<close> and \<open>transparent\<close> and keeps the classes it had,
  \<open>isVisible()\<close> and \<open>isReachable()\<close> are \<open>false\<close> afterwards, whatever the
  state and the visibility were, and the state is as before.
\<close>

theorem setReachable_guard:
  "((\<forall>b. a \<noteq> JBool b) \<longrightarrow> setReachable a this = this) \<and>
   isVisible (setReachable (JBool False) this) = Some False \<and>
   isReachable (setReachable (JBool False) this) = Some False \<and>
   ''display-none'' \<in> set (classList (setReachable (JBool False) this)) \<and>
   ''transparent'' \<in> set (classList (setReachable (JBool False) this)) \<and>
   set (classList (setReachable (JBool False) this))
     = set (classList this) \<union> {''display-none'', ''transparent''} \<and>
   getState (setReachable (JBool False) this) = getState this"
  by (cases a)
     (auto simp: setReachable_def isReachable_def isVisible_def getState_def Let_def
        Path_hide_def classList_add_def)

text \<open>
  The example connector, cleared and visible, its element without the two classes; the
  argument that is not a boolean is the string 'false'.
\<close>

theorem setReachable_guard_witness:
  "getState (after (setState (JStr ''cleared'') False (Path (exampleParams True)))) = Some 3 \<and>
   isVisible (after (setState (JStr ''cleared'') False (Path (exampleParams True))))
     = Some True \<and>
   ''display-none'' \<notin> set (classList
     (after (setState (JStr ''cleared'') False (Path (exampleParams True))))) \<and>
   setReachable (JStr ''false'')
       (after (setState (JStr ''cleared'') False (Path (exampleParams True))))
     = after (setState (JStr ''cleared'') False (Path (exampleParams True))) \<and>
   isVisible (setReachable (JBool False)
     (after (setState (JStr ''cleared'') False (Path (exampleParams True))))) = Some False \<and>
   ''display-none'' \<in> set (classList (setReachable (JBool False)
     (after (setState (JStr ''cleared'') False (Path (exampleParams True)))))) \<and>
   ''transparent'' \<in> set (classList (setReachable (JBool False)
     (after (setState (JStr ''cleared'') False (Path (exampleParams True)))))) \<and>
   getState (setReachable (JBool False)
     (after (setState (JStr ''cleared'') False (Path (exampleParams True))))) = Some 3"
proof -
  have "getState (after (setState (JStr ''cleared'') False (Path (exampleParams True)))) = Some 3"
    "isVisible (after (setState (JStr ''cleared'') False (Path (exampleParams True))))
       = Some True"
    "''display-none'' \<notin> set (classList
       (after (setState (JStr ''cleared'') False (Path (exampleParams True)))))"
    by (simp_all add: eval_defs)
  then show ?thesis
    using setReachable_guard [of "JStr ''false''"
        "after (setState (JStr ''cleared'') False (Path (exampleParams True)))"]
    by simp
qed

subsection \<open>Reset\<close>

text \<open>
  C9, as the code has it. \<open>reset\<close> sets reachable to true, whatever the instance and the
  argument. Without \<open>isInitial\<close>, the enumeration having \<open>open\<close>, the state becomes
  \<open>open\<close> and the connector is hidden: the element has the classes \<open>display-none\<close>
  and \<open>transparent\<close> and \<open>isVisible()\<close> is \<open>false\<close>. With \<open>isInitial\<close>, the
  configured state being \<open>open\<close> or \<open>cleared\<close>, given as the number or as a key,
  the state becomes the configured one, and
  \<^item> a connector configured visible is shown if the flag \<open>displayPaths\<close> is on:
    \<open>isVisible()\<close> is \<open>true\<close>, the element is without \<open>display-none\<close> and, once
    the next animation frame has run, without \<open>transparent\<close>;
  \<^item> a connector configured visible keeps the visibility and the two classes as they
    were if the flag is off;
  \<^item> a connector not configured visible is hidden.
\<close>

theorem reset_behaviour:
  "isReachable (after (reset isInitial this)) = Some True \<and>
   (propertyOf (states (params this)) ''open'' = Some opn \<longrightarrow>
      (\<exists>p. reset False this = Returned p \<and> getState p = Some opn \<and>
           isVisible p = Some False \<and>
           ''display-none'' \<in> set (classList p) \<and> ''transparent'' \<in> set (classList p))) \<and>
   ((p_state (params this) = JNum v \<or>
     (p_state (params this) = JStr k \<and> propertyOf (states (params this)) k = Some v)) \<and>
    (propertyOf (states (params this)) ''open'' = Some v \<or>
     propertyOf (states (params this)) ''cleared'' = Some v) \<longrightarrow>
      (\<exists>p. reset True this = Returned p \<and> getState p = Some v \<and>
           (p_visible (params this) \<and> displayPaths (params this) \<longrightarrow>
              isVisible p = Some True \<and> ''display-none'' \<notin> set (classList p) \<and>
              ''transparent'' \<notin> set (classList (animationFrame p))) \<and>
           (p_visible (params this) \<and> \<not> displayPaths (params this) \<longrightarrow>
              isVisible p = isVisible this \<and>
              (''display-none'' \<in> set (classList p)) = (''display-none'' \<in> set (classList this)) \<and>
              (''transparent'' \<in> set (classList p)) = (''transparent'' \<in> set (classList this))) \<and>
           (\<not> p_visible (params this) \<longrightarrow>
              isVisible p = Some False \<and>
              ''display-none'' \<in> set (classList p) \<and> ''transparent'' \<in> set (classList p))))"
proof -
  let ?p1 = "setReachable (JBool True) this"
  have p1: "params ?p1 = params this" "isVisibleState ?p1 = isVisibleState this"
    "isReachableState ?p1 = Some True" "classList ?p1 = classList this"
    by (simp_all add: setReachable_def isReachable_def Let_def)
  have "isReachableState (after (reset isInitial this)) = Some True"
  proof -
    obtain st where r: "reset isInitial this =
       (case setState st False ?p1 of
          Threw e p \<Rightarrow> Threw e p
        | Returned p \<Rightarrow>
            Returned (if isInitial \<and> p_visible (params this) then Path_show p else Path_hide p))"
      using reset_unfold by blast
    have "isReachableState (after (setState st False ?p1)) = Some True"
      using p1(3) by simp
    then show ?thesis unfolding r by (cases "setState st False ?p1") simp_all
  qed
  then have a: "isReachable (after (reset isInitial this)) = Some True"
    by (simp add: isReachable_def)
  have m: "(c \<in> set (classList q)) = (c \<in> set (classList this))"
    if "setState x False ?p1 = Returned q" "c = ''display-none'' \<or> c = ''transparent''"
    for x q c
    using setState_markers [OF that(2), of x False ?p1] that(1) by (simp add: p1)
  have b: "\<exists>p. reset False this = Returned p \<and> getState p = Some opn \<and>
           isVisible p = Some False \<and>
           ''display-none'' \<in> set (classList p) \<and> ''transparent'' \<in> set (classList p)"
    if o: "propertyOf (states (params this)) ''open'' = Some opn"
  proof -
    have "Some opn = propertyOf (states (params ?p1)) ''open'' \<or>
          Some opn = propertyOf (states (params ?p1)) ''cleared''"
      using o by (simp add: p1)
    then obtain q where q: "setState (JNum opn) False ?p1 = Returned q" "state q = Some opn"
      using setState_stores by blast
    then have "reset False this = Returned (Path_hide q)"
      using o by (simp add: reset_def Let_def p1)
    then show ?thesis
      using q by (simp add: getState_def isVisible_def Path_hide_def classList_add_def)
  qed
  have c: "\<exists>p. reset True this = Returned p \<and> getState p = Some v \<and>
           (p_visible (params this) \<and> displayPaths (params this) \<longrightarrow>
              isVisible p = Some True \<and> ''display-none'' \<notin> set (classList p) \<and>
              ''transparent'' \<notin> set (classList (animationFrame p))) \<and>
           (p_visible (params this) \<and> \<not> displayPaths (params this) \<longrightarrow>
              isVisible p = isVisible this \<and>
              (''display-none'' \<in> set (classList p)) = (''display-none'' \<in> set (classList this)) \<and>
              (''transparent'' \<in> set (classList p)) = (''transparent'' \<in> set (classList this))) \<and>
           (\<not> p_visible (params this) \<longrightarrow>
              isVisible p = Some False \<and>
              ''display-none'' \<in> set (classList p) \<and> ''transparent'' \<in> set (classList p))"
    if s: "p_state (params this) = JNum v \<or>
           (p_state (params this) = JStr k \<and> propertyOf (states (params this)) k = Some v)"
      and oc: "propertyOf (states (params this)) ''open'' = Some v \<or>
               propertyOf (states (params this)) ''cleared'' = Some v"
  proof -
    have "Some v = propertyOf (states (params ?p1)) ''open'' \<or>
          Some v = propertyOf (states (params ?p1)) ''cleared''"
      using oc by (auto simp: p1)
    then obtain q where q: "setState (JNum v) False ?p1 = Returned q" "state q = Some v"
      "params q = params this" "isVisibleState q = isVisibleState this"
      using setState_stores [of v ?p1] p1 by auto
    have sq: "setState (p_state (params this)) False ?p1 = Returned q"
      using s q(1) by (auto simp: setState_string p1)
    have mq: "(''display-none'' \<in> set (classList q)) = (''display-none'' \<in> set (classList this))"
      "(''transparent'' \<in> set (classList q)) = (''transparent'' \<in> set (classList this))"
      using m [OF q(1)] by simp_all
    have "reset True this =
       Returned (if p_visible (params this) then Path_show q else Path_hide q)"
      using sq by (simp add: reset_def Let_def p1 q)
    then show ?thesis
      using q mq
      by (auto simp: getState_def isVisible_def Path_show_def Path_hide_def animationFrame_def
          classList_add_def classList_remove_def)
  qed
  from a b c show ?thesis by blast
qed

text \<open>
  The example connector, configured cleared and visible, with \<open>displayPaths\<close> on:
  after \<open>reset({isInitial: true})\<close> it is cleared and shown, after
  \<open>reset({isInitial: false})\<close> open and hidden.
\<close>

theorem reset_behaviour_witness:
  "propertyOf (states (params (Path (exampleParams True)))) ''open'' = Some 6 \<and>
   p_state (params (Path (exampleParams True))) = JNum 3 \<and>
   propertyOf (states (params (Path (exampleParams True)))) ''cleared'' = Some 3 \<and>
   getState (after (reset True (Path (exampleParams True)))) = Some 3 \<and>
   isVisible (after (reset True (Path (exampleParams True)))) = Some True \<and>
   ''display-none'' \<notin> set (classList (after (reset True (Path (exampleParams True))))) \<and>
   ''transparent'' \<notin> set (classList
      (animationFrame (after (reset True (Path (exampleParams True)))))) \<and>
   getState (after (reset False (Path (exampleParams True)))) = Some 6 \<and>
   isVisible (after (reset False (Path (exampleParams True)))) = Some False \<and>
   ''display-none'' \<in> set (classList (after (reset False (Path (exampleParams True))))) \<and>
   ''transparent'' \<in> set (classList (after (reset False (Path (exampleParams True))))) \<and>
   isReachable (after (reset False (Path (exampleParams True)))) = Some True"
proof -
  have h: "propertyOf (states (params (Path (exampleParams True)))) ''open'' = Some 6"
    "p_state (params (Path (exampleParams True))) = JNum 3"
    "propertyOf (states (params (Path (exampleParams True)))) ''cleared'' = Some 3"
    "p_visible (params (Path (exampleParams True)))"
    "displayPaths (params (Path (exampleParams True)))"
    by (simp_all add: Path_def Let_def exampleParams_def exampleStates_def propertyOf_def)
  show ?thesis
    using h reset_behaviour [of False "Path (exampleParams True)" 6 3 "''''"]
    by auto
qed

text \<open>
  C9 as stated fails where \<open>displayPaths\<close> is off: the same connector, configured
  cleared and visible, is cleared after \<open>reset({isInitial: true})\<close>, but
  \<open>isVisible()\<close> is \<open>undefined\<close>, not \<open>true\<close>.
\<close>

theorem reset_initial_not_shown:
  "p_visible (params (Path (exampleParams False))) \<and>
   getState (after (reset True (Path (exampleParams False)))) = Some 3 \<and>
   isVisible (after (reset True (Path (exampleParams False)))) = None \<and>
   isVisible (after (reset True (Path (exampleParams False)))) \<noteq> Some True"
  by (simp add: eval_defs)

subsection \<open>Visibility after construction\<close>

text \<open>
  C10. A connector constructed visible while \<open>displayPaths\<close> is off has
  \<open>isVisible()\<close> \<open>undefined\<close>. On every instance that calls lead to from there,
  \<open>isVisible()\<close> is \<open>undefined\<close> as long as \<open>hide()\<close> has not been executed, and
  \<open>false\<close> from then on; \<open>hide()\<close> and \<open>setReachable(false)\<close> execute it.
\<close>

theorem isVisible_undefined_until_hide:
  assumes "p_visible ps" and "\<not> displayPaths ps"
  shows "isVisible (Path ps) = None \<and> hideCalls (Path ps) = 0 \<and>
         (reachable ps this \<longrightarrow>
            isVisible this = (if hideCalls this = 0 then None else Some False) \<and>
            isVisible (Path_hide this) = Some False \<and> 0 < hideCalls (Path_hide this) \<and>
            isVisible (setReachable (JBool False) this) = Some False \<and>
            0 < hideCalls (setReachable (JBool False) this))"
proof -
  have 0: "isVisibleState (Path ps) = None" "hideCalls (Path ps) = 0"
    using assms by (simp_all add: Path_def Let_def Path_show_def)
  have "isVisibleState this = (if hideCalls this = 0 then None else Some False)"
    if "reachable ps this"
    using that
  proof (induction rule: reachable.induct)
    case constructed
    show ?case using 0 by simp
  next
    case (called this c)
    have "\<not> displayPaths (params this)"
      using reachable_params [OF called.hyps] assms(2) by (simp add: Path_params)
    then show ?case using called.IH by (rule exec_visible)
  qed
  with 0 show ?thesis
    by (simp add: isVisible_def setReachable_def isReachable_def Let_def)
qed

text \<open>
  The example connector with \<open>displayPaths\<close> off, after \<open>reset({isInitial: true})\<close>:
  still \<open>undefined\<close>, and \<open>false\<close> after \<open>hide()\<close>.
\<close>

theorem isVisible_undefined_until_hide_witness:
  "p_visible (exampleParams False) \<and> \<not> displayPaths (exampleParams False) \<and>
   reachable (exampleParams False) (after (reset True (Path (exampleParams False)))) \<and>
   isVisible (Path (exampleParams False)) = None \<and>
   hideCalls (after (reset True (Path (exampleParams False)))) = 0 \<and>
   isVisible (after (reset True (Path (exampleParams False)))) = None \<and>
   isVisible (Path_hide (after (reset True (Path (exampleParams False))))) = Some False"
proof -
  have h: "p_visible (exampleParams False)" "\<not> displayPaths (exampleParams False)"
    by (simp_all add: exampleParams_def)
  have r0: "reachable (exampleParams False) (Path (exampleParams False))"
    by (rule reachable.constructed)
  have r: "reachable (exampleParams False) (after (reset True (Path (exampleParams False))))"
    using reachable.called [OF r0, of "CallReset True"] by simp
  have c: "hideCalls (after (reset True (Path (exampleParams False)))) = 0"
    by (simp add: eval_defs)
  show ?thesis
    using h r c isVisible_undefined_until_hide [OF h, of "after (reset True (Path (exampleParams False)))"]
    by simp
qed

end
